theory Spec2Isabelle
  imports Main "HOL-Library.AList" "HOL-Library.Sublist"
begin

unbundle bit_operations_syntax

section \<open>Python values and exceptions\<close>

text \<open>
  The model covers \<^verbatim>\<open>src/bgp_route_mapper/bgp_route_mapper.py\<close>. A raised exception
  is the \<open>Inl\<close> branch of a sum; a task that returns normally is \<open>Inr\<close>.
  \<open>KeyError\<close> carries the missing key and \<open>ValueError\<close> the rejected text. What a task
  has written to the host before it raises is not kept: the runner marks the host as failed
  and runs no later task on it.
\<close>

datatype error =
    ValueError string
  | KeyError string
  | IndexError
  | TypeError
  | AttributeError

text \<open>
  What \<^verbatim>\<open>json.loads\<close> returns. The template engine only ever captures text, so numbers
  are kept as integers; a dict is the list of its items in insertion order.
\<close>

datatype json =
    JNull
  | JBool bool
  | JNum int
  | JStr string
  | JList "json list"
  | JDict "(string \<times> json) list"

abbreviation nl :: char where
  "nl \<equiv> CHR 0x0A"

abbreviation tab :: char where
  "tab \<equiv> CHR 0x09"

subsection \<open>String methods\<close>

text \<open>
  \<^verbatim>\<open>s.split(sep)\<close> for a one-character separator. The result is never empty (the empty
  text gives one empty part), so the second branch of the \<open>case\<close> is never taken.
\<close>

fun str_split :: "char \<Rightarrow> string \<Rightarrow> string list" where
  "str_split sep [] = [[]]"
| "str_split sep (c # cs) =
     (if c = sep then [] # str_split sep cs
      else (case str_split sep cs of p # ps \<Rightarrow> (c # p) # ps | [] \<Rightarrow> [[c]]))"

text \<open>\<^verbatim>\<open>sep.join(parts)\<close>.\<close>

fun str_join :: "string \<Rightarrow> string list \<Rightarrow> string" where
  "str_join sep [] = []"
| "str_join sep [p] = p"
| "str_join sep (p # q # ps) = p @ sep @ str_join sep (q # ps)"

definition isdigit :: "char \<Rightarrow> bool" where
  "isdigit c = (c \<in> set ''0123456789'')"

definition digit_val :: "char \<Rightarrow> nat" where
  "digit_val c = of_char c - 48"

text \<open>\<^verbatim>\<open>int(s, 10)\<close> on a string of ASCII digits.\<close>

definition int_of_decimal :: "string \<Rightarrow> nat" where
  "int_of_decimal s = foldl (\<lambda>a c. 10 * a + digit_val c) 0 s"

definition digit_char :: "nat \<Rightarrow> char" where
  "digit_char d = ''0123456789abcdef'' ! d"

text \<open>\<^verbatim>\<open>str(n)\<close> of a non-negative integer.\<close>

fun str_of_nat :: "nat \<Rightarrow> string" where
  "str_of_nat n =
     (if n < 10 then [digit_char n] else str_of_nat (n div 10) @ [digit_char (n mod 10)])"

text \<open>\<^verbatim>\<open>'%x' % n\<close>.\<close>

fun hex_of_nat :: "nat \<Rightarrow> string" where
  "hex_of_nat n =
     (if n < 16 then [digit_char n] else hex_of_nat (n div 16) @ [digit_char (n mod 16)])"

definition ishexdigit :: "char \<Rightarrow> bool" where
  "ishexdigit c = (c \<in> set ''0123456789ABCDEFabcdef'')"

definition hex_val :: "char \<Rightarrow> nat" where
  "hex_val c =
     (if isdigit c then of_char c - 48
      else if c \<in> set ''abcdef'' then of_char c - 87
      else of_char c - 55)"

text \<open>\<^verbatim>\<open>int(s, 16)\<close> on a string of hexadecimal digits.\<close>

definition int_of_hex :: "string \<Rightarrow> nat" where
  "int_of_hex s = foldl (\<lambda>a c. 16 * a + hex_val c) 0 s"

section \<open>The standard library's \<open>ipaddress\<close> module\<close>

text \<open>
  \<^verbatim>\<open>validate_peer\<close> converts every peer string with \<^verbatim>\<open>ipaddress.ip_address\<close> and
  tests it against \<^verbatim>\<open>ipaddress.ip_network\<close> objects. The model follows the library
  (CPython 3.11): an address object holds the integer \<^verbatim>\<open>_ip\<close>, an IPv6 address also
  its optional scope id. \<open>None\<close> stands for the library's \<^verbatim>\<open>AddressValueError\<close> and
  \<^verbatim>\<open>NetmaskValueError\<close>, which \<^verbatim>\<open>ip_address\<close> turns into \<^verbatim>\<open>ValueError\<close>.
\<close>

datatype ip_addr =
    IPv4Address nat
  | IPv6Address nat "string option"

text \<open>\<^verbatim>\<open>_BaseV4._parse_octet\<close>.\<close>

definition parse_octet :: "string \<Rightarrow> nat option" where
  "parse_octet octet_str =
     (if octet_str = [] then None
      else if \<not> list_all isdigit octet_str then None
      else if length octet_str > 3 then None
      else if octet_str \<noteq> ''0'' \<and> hd octet_str = CHR ''0'' then None
      else if int_of_decimal octet_str > 255 then None
      else Some (int_of_decimal octet_str))"

text \<open>All results of a list of partial results, or \<open>None\<close> at the first failure.\<close>

fun sequence :: "'a option list \<Rightarrow> 'a list option" where
  "sequence [] = Some []"
| "sequence (None # xs) = None"
| "sequence (Some x # xs) = map_option (Cons x) (sequence xs)"

text \<open>\<^verbatim>\<open>int.from_bytes(bs, 'big')\<close>.\<close>

definition from_bytes :: "nat list \<Rightarrow> nat" where
  "from_bytes bs = foldl (\<lambda>a b. 256 * a + b) 0 bs"

text \<open>\<^verbatim>\<open>_BaseV4._ip_int_from_string\<close>.\<close>

definition ipv4_int_from_string :: "string \<Rightarrow> nat option" where
  "ipv4_int_from_string ip_str =
     (if ip_str = [] then None
      else let octets = str_split CHR ''.'' ip_str
           in if length octets \<noteq> 4 then None
              else map_option from_bytes (sequence (map parse_octet octets)))"

text \<open>\<^verbatim>\<open>IPv4Address(address)\<close> for a string argument; the result is \<^verbatim>\<open>_ip\<close>.\<close>

definition ipv4_address :: "string \<Rightarrow> nat option" where
  "ipv4_address addr_str =
     (if CHR ''/'' \<in> set addr_str then None else ipv4_int_from_string addr_str)"

text \<open>\<^verbatim>\<open>_BaseV4._string_from_ip_int\<close>.\<close>

definition ipv4_string_from_ip_int :: "nat \<Rightarrow> string" where
  "ipv4_string_from_ip_int ip_int =
     str_join ''.'' (map (\<lambda>i. str_of_nat (drop_bit (8 * i) ip_int AND 255)) [3, 2, 1, 0])"

text \<open>\<^verbatim>\<open>_BaseV6._parse_hextet\<close>; \<^verbatim>\<open>int('', 16)\<close> raises.\<close>

definition parse_hextet :: "string \<Rightarrow> nat option" where
  "parse_hextet hextet_str =
     (if \<not> list_all ishexdigit hextet_str then None
      else if length hextet_str > 4 then None
      else if hextet_str = [] then None
      else Some (int_of_hex hextet_str))"

text \<open>The loop \<^verbatim>\<open>ip_int <<= 16; ip_int |= hextet\<close> over a list of hextets.\<close>

definition shift_hextets :: "nat \<Rightarrow> nat list \<Rightarrow> nat" where
  "shift_hextets ip_int hs = foldl (\<lambda>a h. push_bit 16 a OR h) ip_int hs"

text \<open>
  \<^verbatim>\<open>_BaseV6._ip_int_from_string\<close>. \<open>skips\<close> are the indices, endpoints apart, of the empty
  parts; more than one is an error, one is the \<^verbatim>\<open>skip_index\<close>.
\<close>

definition ipv6_int_from_string :: "string \<Rightarrow> nat option" where
  "ipv6_int_from_string ip_str =
     (if ip_str = [] then None
      else let parts0 = str_split CHR '':'' ip_str
      in if length parts0 < 3 then None
      else case (if CHR ''.'' \<in> set (last parts0)
                 then map_option
                        (\<lambda>ipv4_int. butlast parts0 @
                           [hex_of_nat (drop_bit 16 ipv4_int AND 0xFFFF),
                            hex_of_nat (ipv4_int AND 0xFFFF)])
                        (ipv4_address (last parts0))
                 else Some parts0) of
        None \<Rightarrow> None
      | Some parts \<Rightarrow>
          if length parts > 9 then None
          else
            (let skips = filter (\<lambda>i. parts ! i = []) [1 ..< length parts - 1]
             in if length skips > 1 then None
                else
                  (case skips of
                     skip_index # _ \<Rightarrow>
                       (let parts_hi = (if hd parts = [] then skip_index - 1 else skip_index);
                            parts_lo = (if last parts = [] then length parts - skip_index - 2
                                        else length parts - skip_index - 1)
                        in if hd parts = [] \<and> parts_hi \<noteq> 0 then None
                           else if last parts = [] \<and> parts_lo \<noteq> 0 then None
                           else if parts_hi + parts_lo > 7 then None
                           else
                             (case (sequence (map parse_hextet (take parts_hi parts)),
                                    sequence (map parse_hextet
                                                (drop (length parts - parts_lo) parts))) of
                                (Some hi, Some lo) \<Rightarrow>
                                  Some (shift_hextets
                                          (push_bit (16 * (8 - (parts_hi + parts_lo)))
                                             (shift_hextets 0 hi)) lo)
                              | _ \<Rightarrow> None))
                   | [] \<Rightarrow>
                       if length parts \<noteq> 8 then None
                       else if hd parts = [] then None
                       else if last parts = [] then None
                       else map_option (shift_hextets 0) (sequence (map parse_hextet parts)))))"

text \<open>\<^verbatim>\<open>_BaseV6._split_scope_id\<close>, built on \<^verbatim>\<open>ip_str.partition('%')\<close>.\<close>

definition split_scope_id :: "string \<Rightarrow> (string \<times> string option) option" where
  "split_scope_id ip_str =
     (let addr = takeWhile (\<lambda>c. c \<noteq> CHR ''%'') ip_str;
          rest = dropWhile (\<lambda>c. c \<noteq> CHR ''%'') ip_str
      in if rest = [] then Some (addr, None)
         else if tl rest = [] \<or> CHR ''%'' \<in> set (tl rest) then None
         else Some (addr, Some (tl rest)))"

text \<open>\<^verbatim>\<open>IPv6Address(address)\<close> for a string argument: \<^verbatim>\<open>_ip\<close> and \<^verbatim>\<open>_scope_id\<close>.\<close>

definition ipv6_address :: "string \<Rightarrow> (nat \<times> string option) option" where
  "ipv6_address addr_str =
     (if CHR ''/'' \<in> set addr_str then None
      else case split_scope_id addr_str of
        None \<Rightarrow> None
      | Some (addr, scope_id) \<Rightarrow>
          map_option (\<lambda>ip. (ip, scope_id)) (ipv6_int_from_string addr))"

text \<open>
  \<^verbatim>\<open>_BaseV6._compress_hextets\<close>. The loop state is
  \<open>(best_doublecolon_start, best_doublecolon_len, doublecolon_start, doublecolon_len)\<close>,
  with the library's \<open>-1\<close> for no start.
\<close>

definition compress_step :: "int \<times> nat \<times> int \<times> nat \<Rightarrow> nat \<times> string \<Rightarrow> int \<times> nat \<times> int \<times> nat" where
  "compress_step st ih =
     (case (st, ih) of ((best_start, best_len, start, len), (index, hextet)) \<Rightarrow>
        if hextet = ''0''
        then let len1 = len + 1;
                 start1 = (if start = - 1 then int index else start)
             in if len1 > best_len then (start1, len1, start1, len1)
                else (best_start, best_len, start1, len1)
        else (best_start, best_len, - 1, 0))"

definition compress_hextets :: "string list \<Rightarrow> string list" where
  "compress_hextets hextets =
     (case foldl compress_step (- 1, 0, - 1, 0) (enumerate 0 hextets) of
        (best_start, best_len, _, _) \<Rightarrow>
          if best_len > 1
          then let best_end = nat best_start + best_len;
                   hextets1 = (if best_end = length hextets then hextets @ [[]] else hextets);
                   hextets2 = take (nat best_start) hextets1 @ [[]] @ drop best_end hextets1
               in if best_start = 0 then [] # hextets2 else hextets2
          else hextets)"

text \<open>\<^verbatim>\<open>_BaseV6._string_from_ip_int\<close>: the eight 16-bit groups, most significant first.\<close>

definition ipv6_string_from_ip_int :: "nat \<Rightarrow> string" where
  "ipv6_string_from_ip_int ip_int =
     str_join '':''
       (compress_hextets
          (map (\<lambda>i. hex_of_nat (drop_bit (16 * i) ip_int AND 0xFFFF)) [7, 6, 5, 4, 3, 2, 1, 0]))"

text \<open>\<^verbatim>\<open>str(address)\<close>.\<close>

fun str_ip :: "ip_addr \<Rightarrow> string" where
  "str_ip (IPv4Address ip) = ipv4_string_from_ip_int ip"
| "str_ip (IPv6Address ip None) = ipv6_string_from_ip_int ip"
| "str_ip (IPv6Address ip (Some scope_id)) =
     (if scope_id = [] then ipv6_string_from_ip_int ip
      else ipv6_string_from_ip_int ip @ ''%'' @ scope_id)"

text \<open>\<^verbatim>\<open>ipaddress.ip_address(address)\<close>: IPv4 first, then IPv6, else \<^verbatim>\<open>ValueError\<close>.\<close>

definition ip_address :: "string \<Rightarrow> error + ip_addr" where
  "ip_address address =
     (case ipv4_address address of
        Some ip \<Rightarrow> Inr (IPv4Address ip)
      | None \<Rightarrow>
          (case ipv6_address address of
             Some (ip, scope_id) \<Rightarrow> Inr (IPv6Address ip scope_id)
           | None \<Rightarrow> Inl (ValueError address)))"

text \<open>
  An \<^verbatim>\<open>IPv4Network\<close> object: \<^verbatim>\<open>network_address._ip\<close> and \<^verbatim>\<open>_prefixlen\<close>. Both
  literals that \<^verbatim>\<open>validate_peer\<close> passes to \<^verbatim>\<open>ip_network\<close> have the form
  \<^verbatim>\<open>a.b.c.d/len\<close>, so \<open>ip_network\<close> models the constructor (\<^verbatim>\<open>strict=True\<close>) for
  the texts \<^verbatim>\<open>a.b.c.d/len\<close> and \<^verbatim>\<open>a.b.c.d\<close>; a dotted netmask and an IPv6 network,
  which no call of the source passes, are not modelled.
\<close>

record ipv4_network =
  network_address :: nat
  prefixlen :: nat

text \<open>\<^verbatim>\<open>_ip_int_from_prefix\<close> with \<^verbatim>\<open>_ALL_ONES = 2**32 - 1\<close>.\<close>

definition ip_int_from_prefix :: "nat \<Rightarrow> nat" where
  "ip_int_from_prefix p = (2 ^ 32 - 1) XOR drop_bit p (2 ^ 32 - 1)"

definition netmask :: "ipv4_network \<Rightarrow> nat" where
  "netmask net = ip_int_from_prefix (prefixlen net)"

text \<open>\<^verbatim>\<open>_prefix_from_prefix_string\<close>.\<close>

definition prefix_from_prefix_string :: "string \<Rightarrow> nat option" where
  "prefix_from_prefix_string prefixlen_str =
     (if prefixlen_str = [] then None
      else if \<not> list_all isdigit prefixlen_str then None
      else if int_of_decimal prefixlen_str > 32 then None
      else Some (int_of_decimal prefixlen_str))"

text \<open>
  \<^verbatim>\<open>ip_network(address)\<close>: the text is split at \<^verbatim>\<open>/\<close>, a missing length is 32, and a
  network address with host bits set is a \<^verbatim>\<open>ValueError\<close>.
\<close>

definition ip_network :: "string \<Rightarrow> error + ipv4_network" where
  "ip_network address =
     (let addr = str_split CHR ''/'' address
      in if length addr > 2 then Inl (ValueError address)
         else case (ipv4_address (addr ! 0),
                    if length addr > 1 then prefix_from_prefix_string (addr ! 1) else Some 32) of
           (Some packed, Some p) \<Rightarrow>
             if packed AND ip_int_from_prefix p \<noteq> packed then Inl (ValueError address)
             else Inr \<lparr>network_address = packed, prefixlen = p\<rparr>
         | _ \<Rightarrow> Inl (ValueError address))"

text \<open>
  \<^verbatim>\<open>address in network\<close> (\<^verbatim>\<open>_BaseNetwork.__contains__\<close>): false when the versions
  differ, else \<^verbatim>\<open>other._ip & self.netmask._ip == self.network_address._ip\<close>.
\<close>

fun contains :: "ipv4_network \<Rightarrow> ip_addr \<Rightarrow> bool" where
  "contains net (IPv4Address ip) = (ip AND netmask net = network_address net)"
| "contains net (IPv6Address ip scope_id) = False"

section \<open>The standard library's \<open>textwrap.dedent\<close>\<close>

text \<open>
  \<^verbatim>\<open>dedent\<close> works with two multi-line regular expressions, so the model works on the
  lines of the text (\<^verbatim>\<open>^\<close> and \<^verbatim>\<open>$\<close> match at every \<open>nl\<close>). Blank characters are
  the space and the tab.
\<close>

definition is_blank :: "char \<Rightarrow> bool" where
  "is_blank c = (c = CHR '' '' \<or> c = tab)"

text \<open>\<^verbatim>\<open>_whitespace_only_re.sub('', text)\<close>: a line of blanks only becomes empty.\<close>

definition whitespace_only_sub :: "string list \<Rightarrow> string list" where
  "whitespace_only_sub ls = map (\<lambda>l. if list_all is_blank l then [] else l) ls"

text \<open>
  \<^verbatim>\<open>_leading_whitespace_re.findall(text)\<close>: the leading blanks of every line that has
  another character.
\<close>

definition leading_whitespace :: "string list \<Rightarrow> string list" where
  "leading_whitespace ls = map (takeWhile is_blank) (filter (\<lambda>l. \<not> list_all is_blank l) ls)"

text \<open>One round of the loop over \<^verbatim>\<open>indents\<close>; \<open>None\<close> is the initial \<^verbatim>\<open>margin = None\<close>.\<close>

definition margin_step :: "string option \<Rightarrow> string \<Rightarrow> string option" where
  "margin_step margin indent =
     (case margin of
        None \<Rightarrow> Some indent
      | Some m \<Rightarrow>
          if prefix m indent then Some m
          else if prefix indent m then Some indent
          else Some (longest_common_prefix m indent))"

definition dedent :: "string \<Rightarrow> string" where
  "dedent text =
     (let ls = whitespace_only_sub (str_split nl text)
      in case foldl margin_step None (leading_whitespace ls) of
           None \<Rightarrow> str_join [nl] ls
         | Some margin \<Rightarrow>
             if margin = [] then str_join [nl] ls
             else str_join [nl]
                    (map (\<lambda>l. if prefix margin l then drop (length margin) l else l) ls))"

section \<open>The parsed device state\<close>

text \<open>
  A neighbor is the dict that the template engine builds for one peer: its keys are among
  \<^verbatim>\<open>peer_ip\<close>, \<^verbatim>\<open>remote_as\<close>, \<^verbatim>\<open>description\<close>, \<^verbatim>\<open>route_map_out\<close> and \<^verbatim>\<open>route_map_in\<close>,
  its values are text. A dict is the list of its items in insertion order:
  \<^verbatim>\<open>k in d\<close> is \<open>map_of d k \<noteq> None\<close> and \<^verbatim>\<open>d[k] = v\<close> is \<open>AList.update k v d\<close>, which
  replaces the value in place or appends a new item.
\<close>

type_synonym neighbor = "(string \<times> string) list"

text \<open>\<^verbatim>\<open>d[k]\<close> on a dict.\<close>

definition getitem :: "(string \<times> 'v) list \<Rightarrow> string \<Rightarrow> error + 'v" where
  "getitem d k = (case map_of d k of None \<Rightarrow> Inl (KeyError k) | Some v \<Rightarrow> Inr v)"

text \<open>A row of \<^verbatim>\<open>show route-map\<close> as the table parser returns it (see \<^verbatim>\<open>fake_route_map\<close>).\<close>

record route_map =
  name :: string
  seq :: string
  action :: string
  match_clauses :: "string list"
  set_clauses :: "string list"

text \<open>
  The entries of \<^verbatim>\<open>task.host\<close> that the tasks read and write. \<open>hostname\<close> is what
  \<^verbatim>\<open>{task.host}\<close> formats to, \<open>neighbors\<close> is \<^verbatim>\<open>task.host['bgp_config']['neighbors']\<close>,
  and \<open>community\<close> is \<open>None\<close> when the inventory gives the host no \<^verbatim>\<open>community\<close>.
\<close>

record host =
  hostname :: string
  community :: "string option"
  neighbors :: "neighbor list"
  route_maps :: "route_map list"
  as_path_acl :: json
  validated_peers :: "string list"
  new_config :: string

text \<open>What a task writes to standard output, one item for each call.\<close>

datatype printed =
    Print string
  | PPrint json
  | PrintRouteMap route_map

section \<open>\<open>get_bgp_config\<close> and \<open>get_as_path\<close>: after \<open>json.loads\<close>\<close>

text \<open>\<^verbatim>\<open>x[0]\<close> on a JSON value.\<close>

fun getitem0 :: "json \<Rightarrow> error + json" where
  "getitem0 (JList []) = Inl IndexError"
| "getitem0 (JList (x # xs)) = Inr x"
| "getitem0 (JStr []) = Inl IndexError"
| "getitem0 (JStr (c # cs)) = Inr (JStr [c])"
| "getitem0 (JDict d) = Inl (KeyError ''0'')"
| "getitem0 _ = Inl TypeError"

text \<open>
  \<^verbatim>\<open>for key, value in bgp_config[0].items(): if type(value) == dict: bgp_config[0][key] = [value]\<close>
\<close>

definition rogue_dicts_to_lists :: "(string \<times> json) list \<Rightarrow> (string \<times> json) list" where
  "rogue_dicts_to_lists cfg =
     foldl (\<lambda>d (key, value). case value of JDict _ \<Rightarrow> AList.update key (JList [value]) d | _ \<Rightarrow> d)
       cfg cfg"

text \<open>
  \<^verbatim>\<open>get_bgp_config\<close> from the result of \<^verbatim>\<open>json.loads\<close> on: the argument is the local
  \<^verbatim>\<open>bgp_config\<close>, the result is what the task stores in \<^verbatim>\<open>task.host['bgp_config']\<close>.
  \<^verbatim>\<open>.items()\<close> on anything but a dict is an \<^verbatim>\<open>AttributeError\<close>.
\<close>

definition get_bgp_config :: "json \<Rightarrow> error + (string \<times> json) list" where
  "get_bgp_config bgp_config =
     (case getitem0 bgp_config of
        Inl e \<Rightarrow> Inl e
      | Inr (JDict cfg) \<Rightarrow>
          (let cfg1 = rogue_dicts_to_lists cfg
           in if map_of cfg1 ''neighbors'' = None
              then Inr (AList.update ''neighbors'' (JList []) cfg1)
              else Inr cfg1)
      | Inr _ \<Rightarrow> Inl AttributeError)"

text \<open>\<^verbatim>\<open>len(x)\<close> on a JSON value.\<close>

fun py_len :: "json \<Rightarrow> error + nat" where
  "py_len (JList xs) = Inr (length xs)"
| "py_len (JDict d) = Inr (length d)"
| "py_len (JStr s) = Inr (length s)"
| "py_len _ = Inl TypeError"

text \<open>
  \<^verbatim>\<open>while type(as_path[0]) == list: as_path = as_path.pop()\<close>. Only a list has a list as
  its first element, and \<^verbatim>\<open>pop()\<close> returns its last element.
\<close>

function unwrap_lists :: "json \<Rightarrow> error + json" where
  "unwrap_lists as_path =
     (case getitem0 as_path of
        Inl e \<Rightarrow> Inl e
      | Inr (JList _) \<Rightarrow>
          (case as_path of JList xs \<Rightarrow> unwrap_lists (last xs) | _ \<Rightarrow> Inl TypeError)
      | Inr _ \<Rightarrow> Inr as_path)"
  by pat_completeness auto

termination unwrap_lists
proof (relation "measure size")
  show "wf (measure (size :: json \<Rightarrow> nat))"
    by simp
next
  fix as_path x2 x5 xs
  assume first: "getitem0 as_path = Inr x2" and list: "as_path = JList xs"
  have smaller: "ys \<noteq> [] \<Longrightarrow> size (last ys) < Suc (size_list size ys)" for ys :: "json list"
    by (induction ys) auto
  from first list have "xs \<noteq> []"
    by auto
  with list smaller [of xs] show "(last xs, as_path) \<in> measure size"
    by simp
qed

declare unwrap_lists.simps [simp del]

text \<open>
  \<^verbatim>\<open>get_as_path\<close> from the result of \<^verbatim>\<open>json.loads\<close> on: the argument is the local
  \<^verbatim>\<open>as_path\<close>, the result is what the task stores in \<^verbatim>\<open>task.host['as_path_acl']\<close>.
\<close>

definition get_as_path :: "json \<Rightarrow> error + json" where
  "get_as_path as_path =
     (case py_len as_path of
        Inl e \<Rightarrow> Inl e
      | Inr n \<Rightarrow> if n = 0 then Inr as_path else unwrap_lists as_path)"

section \<open>\<open>validate_peer\<close>\<close>

definition networks :: "string list" where
  "networks = [''10.254.254.0/24'', ''11.0.0.0/8'']"

text \<open>
  The inner loop that sets \<^verbatim>\<open>exclude_peer\<close>: the networks in order, \<^verbatim>\<open>break\<close> at the
  first that contains the address.
\<close>

fun exclude_peer :: "ip_addr \<Rightarrow> string list \<Rightarrow> error + bool" where
  "exclude_peer peer_ip [] = Inr False"
| "exclude_peer peer_ip (network # rest) =
     (case ip_network network of
        Inl e \<Rightarrow> Inl e
      | Inr net \<Rightarrow> if contains net peer_ip then Inr True else exclude_peer peer_ip rest)"

text \<open>The body of the loop over the neighbors; \<open>validated\<close> is \<^verbatim>\<open>task.host['validated_peers']\<close>.\<close>

definition validate_neighbor :: "neighbor \<Rightarrow> string list \<Rightarrow> error + string list" where
  "validate_neighbor neighbor validated =
     (case getitem neighbor ''peer_ip'' of
        Inl e \<Rightarrow> Inl e
      | Inr s \<Rightarrow>
          (case ip_address s of
             Inl e \<Rightarrow> Inl e
           | Inr peer_ip \<Rightarrow>
               (case exclude_peer peer_ip networks of
                  Inl e \<Rightarrow> Inl e
                | Inr excluded \<Rightarrow>
                    if excluded = False then Inr (validated @ [str_ip peer_ip])
                    else Inr validated)))"

fun validate_neighbors :: "neighbor list \<Rightarrow> string list \<Rightarrow> error + string list" where
  "validate_neighbors [] validated = Inr validated"
| "validate_neighbors (neighbor # rest) validated =
     (case validate_neighbor neighbor validated of
        Inl e \<Rightarrow> Inl e
      | Inr validated' \<Rightarrow> validate_neighbors rest validated')"

definition validate_peer :: "host \<Rightarrow> error + host" where
  "validate_peer h =
     (if neighbors h \<noteq> []
      then (case validate_neighbors (neighbors h) [] of
              Inl e \<Rightarrow> Inl e
            | Inr validated \<Rightarrow> Inr (h\<lparr>validated_peers := validated\<rparr>))
      else Inr (h\<lparr>validated_peers := []\<rparr>))"

section \<open>\<open>build_route_map\<close>\<close>

text \<open>The f-string of the new configuration, before \<^verbatim>\<open>textwrap.dedent\<close>.\<close>

definition new_route_map_text :: "string \<Rightarrow> string \<Rightarrow> string" where
  "new_route_map_text community_value peer_ip =
     [nl] @
     ''                    ip as-path access-list 1 permit ^$'' @ [nl] @
     ''                    route-map NEW_ROUTE_MAP permit 10'' @ [nl] @
     ''                     match as-path 1'' @ [nl] @
     ''                     set community '' @ community_value @ [nl] @
     ''                    route-map NEW_ROUTE_MAP deny 20                    '' @ [nl] @
     ''                    router bgp 65000'' @ [nl] @
     ''                     neighbor '' @ peer_ip @ '' route-map NEW_ROUTE_MAP out'' @ [nl] @
     ''                    ''"

text \<open>
  The body of the loop over the neighbors. The neighbor dict is updated in place, so the
  body returns it with the grown \<^verbatim>\<open>new_config\<close> and what it printed.
\<close>

definition build_neighbor :: "host \<Rightarrow> neighbor \<Rightarrow> string \<Rightarrow> error + neighbor \<times> string \<times> printed list" where
  "build_neighbor h neighbor0 config =
     (let neighbor = (if map_of neighbor0 ''route_map_out'' = None
                      then AList.update ''route_map_out'' ''NONE'' neighbor0
                      else neighbor0)
      in case getitem neighbor ''peer_ip'' of
           Inl e \<Rightarrow> Inl e
         | Inr peer_ip \<Rightarrow>
             (case getitem neighbor ''route_map_out'' of
                Inl e \<Rightarrow> Inl e
              | Inr route_map_out \<Rightarrow>
                  if peer_ip \<in> set (validated_peers h)
                  then (let out = [Print (hostname h @ '': peer '' @ peer_ip @
                                           '', route-map: '' @ route_map_out)]
                        in if route_map_out = ''NONE''
                           then (case community h of
                                   None \<Rightarrow> Inl (KeyError ''community'')
                                 | Some c \<Rightarrow>
                                     Inr (neighbor,
                                          config @ dedent (new_route_map_text c peer_ip),
                                          out @ [Print ''Create new route-map:'']))
                           else Inr (neighbor, config,
                                     out @ [PPrint (as_path_acl h)] @
                                     map PrintRouteMap
                                       (filter (\<lambda>rm. route_map_out = name rm) (route_maps h))))
                  else Inr (neighbor, config, [])))"

fun build_neighbors :: "host \<Rightarrow> neighbor list \<Rightarrow> string \<Rightarrow> error + neighbor list \<times> string \<times> printed list" where
  "build_neighbors h [] config = Inr ([], config, [])"
| "build_neighbors h (neighbor # rest) config =
     (case build_neighbor h neighbor config of
        Inl e \<Rightarrow> Inl e
      | Inr (neighbor', config', out) \<Rightarrow>
          (case build_neighbors h rest config' of
             Inl e \<Rightarrow> Inl e
           | Inr (rest', config'', out') \<Rightarrow> Inr (neighbor' # rest', config'', out @ out')))"

definition build_route_map :: "host \<Rightarrow> error + host \<times> printed list" where
  "build_route_map h =
     (case build_neighbors h (neighbors h) [] of
        Inl e \<Rightarrow> Inl e
      | Inr (ns, config, out) \<Rightarrow>
          Inr (h\<lparr>neighbors := ns, new_config := config\<rparr>, out @ [Print config]))"

text \<open>
  \<^verbatim>\<open>main\<close> runs \<^verbatim>\<open>validate_peer\<close> and then \<^verbatim>\<open>build_route_map\<close> on every host; a host
  whose task raised is failed and later runs skip it.
\<close>

definition validate_then_build :: "host \<Rightarrow> error + host \<times> printed list" where
  "validate_then_build h =
     (case validate_peer h of Inl e \<Rightarrow> Inl e | Inr h' \<Rightarrow> build_route_map h')"

section \<open>Example devices\<close>

text \<open>The rows of \<^verbatim>\<open>fake_route_map\<close> in the source.\<close>

definition fake_route_map :: "route_map list" where
  "fake_route_map =
     [\<lparr>name = ''DENY_ANY'', seq = ''10'', action = ''deny'',
        match_clauses = [], set_clauses = []\<rparr>,
      \<lparr>name = ''VERIZON_OUT'', seq = ''10'', action = ''permit'',
        match_clauses = [''as-path (as-path filter): 1''], set_clauses = []\<rparr>,
      \<lparr>name = ''VERIZON_OUT'', seq = ''20'', action = ''deny'',
        match_clauses = [], set_clauses = []\<rparr>]"

text \<open>A device \<^verbatim>\<open>r1\<close> with the community policy \<^verbatim>\<open>100:200\<close>, before \<^verbatim>\<open>validate_peer\<close>.\<close>

definition example_host :: "neighbor list \<Rightarrow> route_map list \<Rightarrow> json \<Rightarrow> host" where
  "example_host ns rms acl =
     \<lparr>hostname = ''r1'', community = Some ''100:200'', neighbors = ns, route_maps = rms,
      as_path_acl = acl, validated_peers = [], new_config = []\<rparr>"

text \<open>The AS-path ACL table of a device that already has an access list 1.\<close>

definition example_as_path_acl :: json where
  "example_as_path_acl =
     JList [JDict [(''as_path_acl'', JStr ''1''), (''action'', JStr ''permit''),
                   (''as_path_match'', JStr ''_65111$'')]]"

section \<open>Facts about the library model\<close>

lemma str_split_not_Nil: "str_split sep s \<noteq> []"
  by (induction s) (auto split: list.splits)

lemma str_split_append:
  "sep \<notin> set a \<Longrightarrow>
   str_split sep (a @ b) = (case str_split sep b of p # ps \<Rightarrow> (a @ p) # ps | [] \<Rightarrow> [a])"
  by (induction a) (auto split: list.splits simp: str_split_not_Nil)

lemma dedent_new_route_map_text:
  assumes "nl \<notin> set c" and "nl \<notin> set ip"
  shows "dedent (new_route_map_text c ip) =
     str_join [nl]
       [[],
        ''ip as-path access-list 1 permit ^$'',
        ''route-map NEW_ROUTE_MAP permit 10'',
        '' match as-path 1'',
        '' set community '' @ c,
        ''route-map NEW_ROUTE_MAP deny 20                    '',
        ''router bgp 65000'',
        '' neighbor '' @ ip @ '' route-map NEW_ROUTE_MAP out'',
        []]"
  using assms
  by (simp add: dedent_def new_route_map_text_def str_split_append whitespace_only_sub_def
      leading_whitespace_def margin_step_def is_blank_def)

lemma update_absent: "map_of d k = None \<Longrightarrow> AList.update k v d = d @ [(k, v)]"
  by (induction d) (auto split: if_splits)

lemmas ipv4_parse_defs =
  ipv4_address_def ipv4_int_from_string_def parse_octet_def isdigit_def int_of_decimal_def
  digit_val_def from_bytes_def

lemma ip_network_10_254_254:
  "ip_network ''10.254.254.0/24'' = Inr \<lparr>network_address = 184483328, prefixlen = 24\<rparr>"
  by (simp add: ip_network_def ipv4_parse_defs prefix_from_prefix_string_def
      ip_int_from_prefix_def)

lemma ip_network_11:
  "ip_network ''11.0.0.0/8'' = Inr \<lparr>network_address = 184549376, prefixlen = 8\<rparr>"
  by (simp add: ip_network_def ipv4_parse_defs prefix_from_prefix_string_def
      ip_int_from_prefix_def)

lemma exclude_peer_networks:
  "exclude_peer a networks =
     Inr (contains \<lparr>network_address = 184483328, prefixlen = 24\<rparr> a \<or>
          contains \<lparr>network_address = 184549376, prefixlen = 8\<rparr> a)"
  by (simp add: networks_def ip_network_10_254_254 ip_network_11)









section \<open>Facts about the tasks\<close>


lemma build_neighbor_existing:
  assumes "map_of neighbor ''peer_ip'' = Some peer_ip"
    and "peer_ip \<in> set (validated_peers h)"
    and "map_of neighbor ''route_map_out'' = Some r"
    and "r \<noteq> ''NONE''"
  shows "build_neighbor h neighbor config =
     Inr (neighbor, config,
          [Print (hostname h @ '': peer '' @ peer_ip @ '', route-map: '' @ r),
           PPrint (as_path_acl h)] @
          map PrintRouteMap (filter (\<lambda>rm. r = name rm) (route_maps h)))"
  using assms
  by (simp add: build_neighbor_def getitem_def)

lemma validate_neighbors_raises:
  assumes "neighbor \<in> set ns" and "\<And>validated. \<exists>e. validate_neighbor neighbor validated = Inl e"
  shows "\<exists>e. validate_neighbors ns validated = Inl e"
  using assms(1)
proof (induction ns arbitrary: validated)
  case Nil
  then show ?case by simp
next
  case (Cons n ns)
  show ?case
  proof (cases "validate_neighbor n validated")
    case (Inl e)
    then show ?thesis by simp
  next
    case (Inr validated')
    with Cons.prems assms(2) [of validated] have "neighbor \<in> set ns"
      by auto
    with Cons.IH [of validated'] Inr show ?thesis
      by simp
  qed
qed


lemma rogue_dicts_map_of:
  "distinct (map fst items) \<Longrightarrow>
   map_of (foldl (\<lambda>d (key, value). case value of JDict _ \<Rightarrow> AList.update key (JList [value]) d
                                        | _ \<Rightarrow> d) d items) k =
     (case map_of items k of Some (JDict r) \<Rightarrow> Some (JList [JDict r]) | _ \<Rightarrow> map_of d k)"
proof (induction items arbitrary: d)
  case Nil
  then show ?case by simp
next
  case (Cons item items)
  obtain k0 v0 where item: "item = (k0, v0)"
    by (cases item)
  with Cons.prems have fresh: "k0 \<notin> fst ` set items" and dist: "distinct (map fst items)"
    by auto
  show ?case
  proof (cases "k = k0")
    case True
    with fresh have "map_of items k = None"
      by (simp add: map_of_eq_None_iff)
    with True show ?thesis
      using Cons.IH [OF dist] item by (simp add: update_conv' split: json.splits)
  next
    case False
    then show ?thesis
      using Cons.IH [OF dist] item
      by (auto simp: update_conv' split: json.splits option.splits)
  qed
qed

lemma nested_is_list: "\<exists>xs. ((\<lambda>v. JList [v]) ^^ depth) (JList ys) = JList xs"
  by (cases depth) auto

lemma unwrap_lists_nested:
  "unwrap_lists (((\<lambda>v. JList [v]) ^^ depth) (JList [JDict r])) = Inr (JList [JDict r])"
proof (induction depth)
  case 0
  show ?case
    by (simp add: unwrap_lists.simps [of "JList [JDict r]"])
next
  case (Suc depth)
  obtain xs where inner: "((\<lambda>v. JList [v]) ^^ depth) (JList [JDict r]) = JList xs"
    using nested_is_list by blast
  then show ?case
    using Suc by (simp add: unwrap_lists.simps [of "JList [JList xs]"])
qed

lemma build_neighbor_neighbor:
  assumes "build_neighbor h n config = Inr (n', config', out)"
  shows "n' = (if map_of n ''route_map_out'' = None then n @ [(''route_map_out'', ''NONE'')] else n)"
  using assms
  by (auto simp: build_neighbor_def Let_def update_absent split: sum.splits if_splits option.splits)

lemma build_neighbors_neighbors:
  assumes "build_neighbors h ns config = Inr (ns', config', out)"
  shows "ns' = map (\<lambda>n. if map_of n ''route_map_out'' = None
                        then n @ [(''route_map_out'', ''NONE'')] else n) ns"
  using assms
proof (induction ns arbitrary: config ns' config' out)
  case Nil
  then show ?case by simp
next
  case (Cons n ns)
  from Cons.prems obtain n' config1 out1 ns1 out2 where
    body: "build_neighbor h n config = Inr (n', config1, out1)"
    and rest: "build_neighbors h ns config1 = Inr (ns1, config', out2)"
    and ns': "ns' = n' # ns1"
    by (auto split: sum.splits)
  from build_neighbor_neighbor [OF body] Cons.IH [OF rest] ns' show ?case
    by simp
qed

lemmas run_defs =
  validate_then_build_def validate_peer_def validate_neighbor_def build_route_map_def
  build_neighbor_def getitem_def example_host_def ip_address_def ipv4_parse_defs
  exclude_peer_networks netmask_def ip_int_from_prefix_def ipv4_string_from_ip_int_def
  digit_char_def dedent_new_route_map_text

section \<open>The claims\<close>



text \<open>
  C2, as the spec states it, fails. The device has the validated peer 22.22.22.22 bound to
  the route-map \<^verbatim>\<open>VERIZON_OUT\<close>, whose rows are permit 10 and deny 20 and set no
  community: the tasks return with an empty \<^verbatim>\<open>new_config\<close>, no entry has been inserted.
  With the deny row at 11, so that no sequence number is free, they return just the same
  and raise nothing.
\<close>

theorem add_entry_counterexample:
  "validate_then_build
     (example_host
        [[(''peer_ip'', ''22.22.22.22''), (''remote_as'', ''65222''),
          (''route_map_out'', ''VERIZON_OUT'')]]
        fake_route_map example_as_path_acl) =
   Inr ((example_host
           [[(''peer_ip'', ''22.22.22.22''), (''remote_as'', ''65222''),
             (''route_map_out'', ''VERIZON_OUT'')]]
           fake_route_map example_as_path_acl)\<lparr>validated_peers := [''22.22.22.22'']\<rparr>,
        [Print ''r1: peer 22.22.22.22, route-map: VERIZON_OUT'',
         PPrint example_as_path_acl,
         PrintRouteMap \<lparr>name = ''VERIZON_OUT'', seq = ''10'', action = ''permit'',
           match_clauses = [''as-path (as-path filter): 1''], set_clauses = []\<rparr>,
         PrintRouteMap \<lparr>name = ''VERIZON_OUT'', seq = ''20'', action = ''deny'',
           match_clauses = [], set_clauses = []\<rparr>,
         Print []]) \<and>
   validate_then_build
     (example_host
        [[(''peer_ip'', ''22.22.22.22''), (''remote_as'', ''65222''),
          (''route_map_out'', ''VERIZON_OUT'')]]
        [\<lparr>name = ''VERIZON_OUT'', seq = ''10'', action = ''permit'',
           match_clauses = [''as-path (as-path filter): 1''], set_clauses = []\<rparr>,
         \<lparr>name = ''VERIZON_OUT'', seq = ''11'', action = ''deny'',
           match_clauses = [], set_clauses = []\<rparr>]
        example_as_path_acl) =
   Inr ((example_host
           [[(''peer_ip'', ''22.22.22.22''), (''remote_as'', ''65222''),
             (''route_map_out'', ''VERIZON_OUT'')]]
           [\<lparr>name = ''VERIZON_OUT'', seq = ''10'', action = ''permit'',
              match_clauses = [''as-path (as-path filter): 1''], set_clauses = []\<rparr>,
            \<lparr>name = ''VERIZON_OUT'', seq = ''11'', action = ''deny'',
              match_clauses = [], set_clauses = []\<rparr>]
           example_as_path_acl)\<lparr>validated_peers := [''22.22.22.22'']\<rparr>,
        [Print ''r1: peer 22.22.22.22, route-map: VERIZON_OUT'',
         PPrint example_as_path_acl,
         PrintRouteMap \<lparr>name = ''VERIZON_OUT'', seq = ''10'', action = ''permit'',
           match_clauses = [''as-path (as-path filter): 1''], set_clauses = []\<rparr>,
         PrintRouteMap \<lparr>name = ''VERIZON_OUT'', seq = ''11'', action = ''deny'',
           match_clauses = [], set_clauses = []\<rparr>,
         Print []])"
  by (simp add: run_defs fake_route_map_def)

text \<open>
  C2, amended. For a validated peer whose record names a route-map, \<^verbatim>\<open>build_route_map\<close>
  leaves the record and \<^verbatim>\<open>new_config\<close> as they are and raises nothing: it prints the peer
  line, the AS-path ACL table and every route-map row of that name.
\<close>

theorem existing_route_map_only_printed:
  assumes "map_of neighbor ''peer_ip'' = Some peer_ip"
    and "peer_ip \<in> set (validated_peers h)"
    and "map_of neighbor ''route_map_out'' = Some r"
    and "r \<noteq> ''NONE''"
  shows "build_neighbor h neighbor config =
     Inr (neighbor, config,
          [Print (hostname h @ '': peer '' @ peer_ip @ '', route-map: '' @ r),
           PPrint (as_path_acl h)] @
          map PrintRouteMap (filter (\<lambda>rm. r = name rm) (route_maps h)))"
  using assms by (rule build_neighbor_existing)

theorem existing_route_map_only_printed_witness:
  "build_neighbor
     ((example_host [] fake_route_map example_as_path_acl)\<lparr>validated_peers := [''22.22.22.22'']\<rparr>)
     [(''peer_ip'', ''22.22.22.22''), (''route_map_out'', ''VERIZON_OUT'')] ''!'' =
   Inr ([(''peer_ip'', ''22.22.22.22''), (''route_map_out'', ''VERIZON_OUT'')], ''!'',
        [Print ''r1: peer 22.22.22.22, route-map: VERIZON_OUT'',
         PPrint example_as_path_acl,
         PrintRouteMap \<lparr>name = ''VERIZON_OUT'', seq = ''10'', action = ''permit'',
           match_clauses = [''as-path (as-path filter): 1''], set_clauses = []\<rparr>,
         PrintRouteMap \<lparr>name = ''VERIZON_OUT'', seq = ''20'', action = ''deny'',
           match_clauses = [], set_clauses = []\<rparr>])"
  using existing_route_map_only_printed
    [of "[(''peer_ip'', ''22.22.22.22''), (''route_map_out'', ''VERIZON_OUT'')]" "''22.22.22.22''"
        "(example_host [] fake_route_map example_as_path_acl)\<lparr>validated_peers := [''22.22.22.22'']\<rparr>"
        "''VERIZON_OUT''" "''!''"]
  by (simp add: example_host_def fake_route_map_def)








text \<open>
  C6, as the spec states it, fails. The validated peer 22.22.22.22 is bound to the route-map
  \<^verbatim>\<open>ATT_OUT\<close>, which the device's route-map rows do not have: the tasks return normally,
  having printed the peer line and the AS-path ACL table, and report nothing.
\<close>

theorem missing_route_map_counterexample:
  "validate_then_build
     (example_host
        [[(''peer_ip'', ''22.22.22.22''), (''remote_as'', ''65222''),
          (''route_map_out'', ''ATT_OUT''), (''route_map_in'', ''ATT_IN''),
          (''description'', ''MPLS2'')]]
        fake_route_map (JList [])) =
   Inr ((example_host
           [[(''peer_ip'', ''22.22.22.22''), (''remote_as'', ''65222''),
             (''route_map_out'', ''ATT_OUT''), (''route_map_in'', ''ATT_IN''),
             (''description'', ''MPLS2'')]]
           fake_route_map (JList []))\<lparr>validated_peers := [''22.22.22.22'']\<rparr>,
        [Print ''r1: peer 22.22.22.22, route-map: ATT_OUT'', PPrint (JList []), Print []])"
  by (simp add: run_defs fake_route_map_def)

text \<open>
  C6, amended. For a validated peer whose record names a route-map that no route-map row of
  the device has, \<^verbatim>\<open>build_route_map\<close> raises nothing and synthesizes nothing: the record
  and \<^verbatim>\<open>new_config\<close> stay as they are, and only the peer line and the AS-path ACL table
  are printed.
\<close>

theorem missing_route_map_only_printed:
  assumes "map_of neighbor ''peer_ip'' = Some peer_ip"
    and "peer_ip \<in> set (validated_peers h)"
    and "map_of neighbor ''route_map_out'' = Some r"
    and "r \<noteq> ''NONE''"
    and "\<forall>rm \<in> set (route_maps h). name rm \<noteq> r"
  shows "build_neighbor h neighbor config =
     Inr (neighbor, config,
          [Print (hostname h @ '': peer '' @ peer_ip @ '', route-map: '' @ r),
           PPrint (as_path_acl h)])"
proof -
  from assms(5) have "filter (\<lambda>rm. r = name rm) (route_maps h) = []"
    by (auto simp: filter_empty_conv)
  with build_neighbor_existing [OF assms(1-4), of config] show ?thesis
    by simp
qed

theorem missing_route_map_only_printed_witness:
  "build_neighbor
     ((example_host [] fake_route_map (JList []))\<lparr>validated_peers := [''22.22.22.22'']\<rparr>)
     [(''peer_ip'', ''22.22.22.22''), (''route_map_out'', ''ATT_OUT'')] ''!'' =
   Inr ([(''peer_ip'', ''22.22.22.22''), (''route_map_out'', ''ATT_OUT'')], ''!'',
        [Print ''r1: peer 22.22.22.22, route-map: ATT_OUT'', PPrint (JList [])])"
  using missing_route_map_only_printed
    [of "[(''peer_ip'', ''22.22.22.22''), (''route_map_out'', ''ATT_OUT'')]" "''22.22.22.22''"
        "(example_host [] fake_route_map (JList []))\<lparr>validated_peers := [''22.22.22.22'']\<rparr>"
        "''ATT_OUT''" "''!''"]
  by (simp add: example_host_def fake_route_map_def)

text \<open>
  C7. A neighbor whose \<^verbatim>\<open>peer_ip\<close> the library rejects makes \<^verbatim>\<open>validate_peer\<close> raise: the
  conversion raises \<^verbatim>\<open>ValueError\<close> for that text, nothing catches it, and the task ends
  with an exception instead of a list of validated peers. (The source has no exception
  class of its own; \<^verbatim>\<open>ValueError\<close> is the library's error for a malformed literal.)
\<close>

theorem malformed_peer_ip_raises:
  assumes "neighbor \<in> set (neighbors h)"
    and "map_of neighbor ''peer_ip'' = Some s"
    and "ip_address s = Inl e"
  shows "e = ValueError s \<and>
         validate_neighbor neighbor validated = Inl (ValueError s) \<and>
         (\<exists>e'. validate_peer h = Inl e')"
proof -
  from assms(3) have e: "e = ValueError s"
    by (auto simp: ip_address_def split: option.splits)
  have body: "validate_neighbor neighbor v = Inl (ValueError s)" for v
    using assms(2,3) e by (simp add: validate_neighbor_def getitem_def)
  then have "\<exists>e'. validate_neighbors (neighbors h) [] = Inl e'"
    using assms(1) by (intro validate_neighbors_raises [of neighbor]) auto
  moreover from assms(1) have "neighbors h \<noteq> []"
    by auto
  ultimately show ?thesis
    using e body by (auto simp: validate_peer_def)
qed

theorem malformed_peer_ip_raises_witness:
  "validate_neighbor [(''peer_ip'', ''10.1.1.256'')] [] = Inl (ValueError ''10.1.1.256'') \<and>
   (\<exists>e'. validate_peer
            (example_host [[(''peer_ip'', ''22.22.22.22'')], [(''peer_ip'', ''10.1.1.256'')]]
               [] (JList [])) = Inl e')"
proof -
  have bad: "ip_address ''10.1.1.256'' = Inl (ValueError ''10.1.1.256'')"
    by (simp add: ip_address_def ipv4_parse_defs ipv6_address_def split_scope_id_def
        ipv6_int_from_string_def)
  from malformed_peer_ip_raises
         [of "[(''peer_ip'', ''10.1.1.256'')]"
             "example_host [[(''peer_ip'', ''22.22.22.22'')], [(''peer_ip'', ''10.1.1.256'')]]
                [] (JList [])"
             "''10.1.1.256''" _ "[]", OF _ _ bad]
  show ?thesis
    by (simp add: example_host_def)
qed



text \<open>
  C9. A group of the parsed BGP section that holds a single record, a dict, is stored as the
  list of that one record (the keys of the parsed dict are distinct, as in every dict); and
  an AS-path parse that holds a single record, wrapped in any number of one-element lists,
  is stored as the flat list of that one record.
\<close>

theorem single_match_one_element_list:
  assumes "distinct (map fst cfg)" and "map_of cfg k = Some (JDict r)"
  shows "(\<exists>cfg'. get_bgp_config (JList (JDict cfg # rest)) = Inr cfg' \<and>
                 map_of cfg' k = Some (JList [JDict r])) \<and>
         get_as_path (((\<lambda>v. JList [v]) ^^ depth) (JList [JDict acl])) = Inr (JList [JDict acl])"
proof -
  have stored: "map_of (rogue_dicts_to_lists cfg) k = Some (JList [JDict r])"
    unfolding rogue_dicts_to_lists_def using assms by (simp add: rogue_dicts_map_of)
  then have "k \<noteq> ''neighbors''" if "map_of (rogue_dicts_to_lists cfg) ''neighbors'' = None"
    using that by auto
  with stored have groups: "\<exists>cfg'. get_bgp_config (JList (JDict cfg # rest)) = Inr cfg' \<and>
                 map_of cfg' k = Some (JList [JDict r])"
    by (auto simp: get_bgp_config_def update_conv' Let_def)
  obtain xs where "((\<lambda>v. JList [v]) ^^ depth) (JList [JDict acl]) = JList xs" and "xs \<noteq> []"
    by (cases depth) auto
  then have "get_as_path (((\<lambda>v. JList [v]) ^^ depth) (JList [JDict acl])) =
               unwrap_lists (((\<lambda>v. JList [v]) ^^ depth) (JList [JDict acl]))"
    by (simp add: get_as_path_def)
  with groups show ?thesis
    by (simp add: unwrap_lists_nested)
qed

theorem single_match_one_element_list_witness:
  "(\<exists>cfg'. get_bgp_config
             (JList [JDict [(''neighbors'', JDict [(''peer_ip'', JStr ''22.22.22.22''),
                                                   (''remote_as'', JStr ''65222'')])]]) = Inr cfg' \<and>
           map_of cfg' ''neighbors'' =
             Some (JList [JDict [(''peer_ip'', JStr ''22.22.22.22''),
                                 (''remote_as'', JStr ''65222'')]])) \<and>
   get_as_path (JList [JList [JDict [(''as_path_acl'', JStr ''1''), (''action'', JStr ''permit''),
                                     (''as_path_match'', JStr ''^$'')]]]) =
     Inr (JList [JDict [(''as_path_acl'', JStr ''1''), (''action'', JStr ''permit''),
                        (''as_path_match'', JStr ''^$'')]])"
  using single_match_one_element_list
    [of "[(''neighbors'', JDict [(''peer_ip'', JStr ''22.22.22.22''),
                                 (''remote_as'', JStr ''65222'')])]"
        "''neighbors''"
        "[(''peer_ip'', JStr ''22.22.22.22''), (''remote_as'', JStr ''65222'')]"
        "[]" "Suc 0"
        "[(''as_path_acl'', JStr ''1''), (''action'', JStr ''permit''),
          (''as_path_match'', JStr ''^$'')]"]
  by simp

text \<open>
  C10. When \<^verbatim>\<open>build_route_map\<close> returns, the neighbor records of the host are the old ones,
  in order, each record that had no \<^verbatim>\<open>route_map_out\<close> with the item
  \<^verbatim>\<open>route_map_out: 'NONE'\<close> appended and every other record as it was, whether or not the
  peer is validated; so every record has the key. Apart from the neighbors, only
  \<^verbatim>\<open>new_config\<close> is written.
\<close>

theorem build_route_map_defaults_route_map_out:
  assumes "build_route_map h = Inr (h', out)"
  shows "neighbors h' =
           map (\<lambda>n. if map_of n ''route_map_out'' = None
                     then n @ [(''route_map_out'', ''NONE'')] else n) (neighbors h) \<and>
         (\<forall>n \<in> set (neighbors h'). map_of n ''route_map_out'' \<noteq> None) \<and>
         h' = h\<lparr>neighbors := neighbors h', new_config := new_config h'\<rparr>"
proof -
  from assms obtain ns config out0 where
    loop: "build_neighbors h (neighbors h) [] = Inr (ns, config, out0)"
    and h': "h' = h\<lparr>neighbors := ns, new_config := config\<rparr>"
    by (auto simp: build_route_map_def split: sum.splits)
  from build_neighbors_neighbors [OF loop] h' show ?thesis
    by (auto simp: map_add_def)
qed

theorem build_route_map_defaults_route_map_out_witness:
  "\<exists>h' out.
     build_route_map
       ((example_host
           [[(''peer_ip'', ''11.11.11.11''), (''remote_as'', ''65111'')],
            [(''peer_ip'', ''33.33.33.33''), (''route_map_out'', ''CenturyLink_OUT'')]]
           fake_route_map (JList []))\<lparr>validated_peers := [''33.33.33.33'']\<rparr>) = Inr (h', out) \<and>
     neighbors h' =
       [[(''peer_ip'', ''11.11.11.11''), (''remote_as'', ''65111''), (''route_map_out'', ''NONE'')],
        [(''peer_ip'', ''33.33.33.33''), (''route_map_out'', ''CenturyLink_OUT'')]]"
proof -
  obtain h' out where run:
    "build_route_map
       ((example_host
           [[(''peer_ip'', ''11.11.11.11''), (''remote_as'', ''65111'')],
            [(''peer_ip'', ''33.33.33.33''), (''route_map_out'', ''CenturyLink_OUT'')]]
           fake_route_map (JList []))\<lparr>validated_peers := [''33.33.33.33'']\<rparr>) = Inr (h', out)"
    by (simp add: build_route_map_def build_neighbor_def getitem_def example_host_def)
  from build_route_map_defaults_route_map_out [OF run] run show ?thesis
    by (simp add: example_host_def)
qed

end
